theory Spec2Isabelle
  imports Complex_Main "HOL-Library.AList"
begin

section \<open>Data model\<close>

text \<open>
  The records follow the interfaces of the type declarations (\<open>PoolInfo\<close>, \<open>Position\<close>,
  \<open>Portfolio\<close>, \<open>BotConfig\<close>). A JavaScript number is idealised as a real: rounding, NaN
  and the infinities are outside the model, and where the source divides the model agrees
  with it for a non-zero divisor. A \<open>Date\<close> is its millisecond timestamp, the value that
  \<open>getTime()\<close> returns and that \<open><\<close> compares. \<open>Date.now()\<close> and the fresh \<open>uuid\<close> are
  read from the environment by the source; here they are arguments. The calls of
  \<open>actionLogger\<close> and \<open>console.log\<close> write to an audit sink outside the portfolio and the
  returned values, and are not part of the model.
\<close>

record TokenInfo =
  mint :: string
  symbol :: string
  decimals :: real
  amount :: real

record PoolInfo =
  poolId :: string
  baseToken :: TokenInfo
  quoteToken :: TokenInfo
  tvl :: real
  volume24h :: real
  fees24h :: real
  apy :: real
  createdAt :: int
  lpTokenSupply :: real
  price :: real

datatype status = Active | Exited

record Position =
  id :: string
  poolId :: string
  entryTime :: int
  entryPrice :: real
  entryApy :: real
  amount :: real
  currentValue :: real
  currentApy :: real
  pnl :: real
  pnlPercentage :: real
  status :: status
  exitTime :: "int option"
  exitPrice :: "real option"
  exitReason :: "string option"

record BotConfig =
  minApy :: real
  minTvl :: real
  minVolume24h :: real
  maxPositions :: real
  positionSize :: real
  exitApyThreshold :: real
  stopLossPercentage :: real
  takeProfitPercentage :: real
  maxHoldingTime :: real
  maxTotalInvestment :: real
  riskPerPosition :: real

record Portfolio =
  totalValue :: real
  totalInvested :: real
  totalPnl :: real
  totalPnlPercentage :: real
  activePositions :: "Position list"
  closedPositions :: "Position list"
  availableCash :: real
  maxPositions :: real

text \<open>\<open>DEFAULT_BOT_CONFIG\<close> of the bot's configuration module.\<close>

definition DEFAULT_BOT_CONFIG :: BotConfig where
  "DEFAULT_BOT_CONFIG =
     \<lparr> minApy = 20, minTvl = 100, minVolume24h = 1000,
       BotConfig.maxPositions = 5, positionSize = 1000,
       exitApyThreshold = 10, stopLossPercentage = - 15, takeProfitPercentage = 25,
       maxHoldingTime = 168, maxTotalInvestment = 10000, riskPerPosition = 10 \<rparr>"

text \<open>\<open>POOL_EVALUATION\<close> as the bot's configuration module exports it.\<close>

definition MIN_AGE_HOURS :: real where "MIN_AGE_HOURS = 1"
definition MAX_AGE_HOURS :: real where "MAX_AGE_HOURS = 72"
definition MIN_LIQUIDITY_RATIO :: real where "MIN_LIQUIDITY_RATIO = 3 / 10"

text \<open>
  \<open>POOL_EVALUATION\<close> of the pool monitor (listening and decision phases only), whose
  evaluator reads its thresholds from these constants instead of a \<open>BotConfig\<close>.
\<close>

definition MIN_APY :: real where "MIN_APY = 100"
definition MIN_TVL :: real where "MIN_TVL = 50"
definition MIN_VOLUME_24H :: real where "MIN_VOLUME_24H = 500"
definition SWEET_SPOT_AGE_HOURS :: real where "SWEET_SPOT_AGE_HOURS = 24"
definition HIGH_INCENTIVE_THRESHOLD :: real where "HIGH_INCENTIVE_THRESHOLD = 200"
definition HIGH_VOLUME_THRESHOLD :: real where "HIGH_VOLUME_THRESHOLD = 5000"
definition MIN_SCORE_TO_ENTER :: int where "MIN_SCORE_TO_ENTER = 100"

section \<open>Scoring engine\<close>

text \<open>
  The reasons and warnings of the source are template strings. Each constructor below is
  one template and carries the numbers the template interpolates, in the order in which
  they appear in the string.
\<close>

datatype message =
    ApyMeetsMinimum real real
  | ApyBelowMinimum real real
  | TvlMeetsMinimum real real
  | TvlBelowMinimum real real
  | VolumeMeetsMinimum real real
  | VolumeBelowMinimum real real
  | AgeWithinRange real
  | PoolVeryNew real
  | PoolOld real
  | GoodLiquidityBalance real
  | UnbalancedLiquidity real
  | ExceptionalApy real
  | HighVolumeActivity
  | ExtremelyHighApy real
  | LowTvlRelativeToVolume
  | AgeSweetSpot real
  | UltraFreshPool real
  | PoolTooNew real
  | PoolTooOld real
  | UltraHighIncentive real
  | HighIncentive real
  | GoodVolumeActivity
  | EarlyEntryOpportunity
  | SustainableIncentive
  | VeryHighApy real

record EntryEvaluation =
  shouldEnter :: bool
  score :: int
  reasons :: "message list"
  warnings :: "message list"

datatype decision = ENTER | SKIP

record PoolEvaluation =
  poolId :: string
  score :: int
  decision :: decision
  reasons :: "message list"
  warnings :: "message list"
  timestamp :: int

definition calculateLiquidityRatio :: "PoolInfo \<Rightarrow> real" where
  "calculateLiquidityRatio pool =
     (let baseValue = TokenInfo.amount (baseToken pool) * price pool;
          quoteValue = TokenInfo.amount (quoteToken pool);
          totalValue = baseValue + quoteValue
      in if totalValue = 0 then 0
         else (let ratio = min baseValue quoteValue / totalValue in ratio * 2))"

definition getPoolAgeHours :: "int \<Rightarrow> PoolInfo \<Rightarrow> real" where
  "getPoolAgeHours now pool = real_of_int (now - createdAt pool) / (1000 * 60 * 60)"

text \<open>
  \<open>evaluatePoolForEntry\<close> of the bot's evaluator accumulates \<open>score\<close>, \<open>reasons\<close> and
  \<open>warnings\<close> in three local variables. The accumulator below is that triple, and each
  block of the source after the three gates is one function on it, applied in the
  source's order.
\<close>

type_synonym acc = "int \<times> message list \<times> message list"

text \<open>Check pool age.\<close>

definition checkPoolAge :: "int \<Rightarrow> PoolInfo \<Rightarrow> acc \<Rightarrow> acc" where
  "checkPoolAge now pool a =
     (case a of (sc, rs, ws) \<Rightarrow>
        (let ageHours = getPoolAgeHours now pool in
         if ageHours \<ge> MIN_AGE_HOURS \<and> ageHours \<le> MAX_AGE_HOURS
         then (sc + 15, rs @ [AgeWithinRange ageHours], ws)
         else if ageHours < MIN_AGE_HOURS
         then (sc + 5, rs, ws @ [PoolVeryNew ageHours])
         else (sc + 5, rs, ws @ [PoolOld ageHours])))"

text \<open>Check liquidity balance.\<close>

definition checkLiquidityBalance :: "PoolInfo \<Rightarrow> acc \<Rightarrow> acc" where
  "checkLiquidityBalance pool a =
     (case a of (sc, rs, ws) \<Rightarrow>
        (let liquidityRatio = calculateLiquidityRatio pool in
         if liquidityRatio \<ge> MIN_LIQUIDITY_RATIO
         then (sc + 10, rs @ [GoodLiquidityBalance liquidityRatio], ws)
         else (sc + 3, rs, ws @ [UnbalancedLiquidity liquidityRatio])))"

text \<open>Bonus scoring for exceptional metrics: two independent \<open>if\<close> statements.\<close>

definition bonusScoring :: "BotConfig \<Rightarrow> PoolInfo \<Rightarrow> acc \<Rightarrow> acc" where
  "bonusScoring config pool a =
     (case a of (sc, rs, ws) \<Rightarrow>
        (let (score1, reasons1) =
               (if apy pool > minApy config * 2
                then (sc + 10, rs @ [ExceptionalApy (apy pool)])
                else (sc, rs))
         in if volume24h pool > minVolume24h config * 5
            then (score1 + 5, reasons1 @ [HighVolumeActivity], ws)
            else (score1, reasons1, ws)))"

text \<open>Check for red flags: again two independent \<open>if\<close> statements.\<close>

definition checkRedFlags :: "PoolInfo \<Rightarrow> acc \<Rightarrow> acc" where
  "checkRedFlags pool a =
     (case a of (sc, rs, ws) \<Rightarrow>
        (let (score1, warnings1) =
               (if apy pool > 100
                then (sc - 20, ws @ [ExtremelyHighApy (apy pool)])
                else (sc, ws))
         in if tvl pool < volume24h pool * (1 / 10)
            then (score1 - 10, rs, warnings1 @ [LowTvlRelativeToVolume])
            else (score1, rs, warnings1)))"

definition evaluatePoolForEntry :: "BotConfig \<Rightarrow> int \<Rightarrow> PoolInfo \<Rightarrow> EntryEvaluation" where
  "evaluatePoolForEntry config now pool =
     (let score0 = 0; reasons0 = []; warnings0 = [] in
      if apy pool \<ge> minApy config then
        (let score1 = score0 + 25;
             reasons1 = reasons0 @ [ApyMeetsMinimum (apy pool) (minApy config)] in
         if tvl pool \<ge> minTvl config then
           (let score2 = score1 + 20;
                reasons2 = reasons1 @ [TvlMeetsMinimum (tvl pool) (minTvl config)] in
            if volume24h pool \<ge> minVolume24h config then
              (let score3 = score2 + 20;
                   reasons3 = reasons2
                     @ [VolumeMeetsMinimum (volume24h pool) (minVolume24h config)]
               in case checkRedFlags pool
                         (bonusScoring config pool
                           (checkLiquidityBalance pool
                             (checkPoolAge now pool (score3, reasons3, warnings0))))
                  of (sc, rs, ws) \<Rightarrow>
                    \<lparr> shouldEnter = (sc \<ge> 70), EntryEvaluation.score = sc,
                      EntryEvaluation.reasons = rs,
                      EntryEvaluation.warnings = ws \<rparr>)
            else
              \<lparr> shouldEnter = False, EntryEvaluation.score = score2,
                EntryEvaluation.reasons = reasons2
                  @ [VolumeBelowMinimum (volume24h pool) (minVolume24h config)],
                EntryEvaluation.warnings = warnings0 \<rparr>)
         else
           \<lparr> shouldEnter = False, EntryEvaluation.score = score1,
             EntryEvaluation.reasons = reasons1
               @ [TvlBelowMinimum (tvl pool) (minTvl config)],
             EntryEvaluation.warnings = warnings0 \<rparr>)
      else
        \<lparr> shouldEnter = False, EntryEvaluation.score = score0,
          EntryEvaluation.reasons = reasons0
            @ [ApyBelowMinimum (apy pool) (minApy config)],
          EntryEvaluation.warnings = warnings0 \<rparr>)"

text \<open>
  The pool monitor's evaluator. Its gates return a literal score \<open>0\<close> and a fresh
  one-element \<open>reasons\<close> array; the blocks after the gates are numbered 4 to 8 in the
  source.
\<close>

definition poolAgeAnalysis :: "int \<Rightarrow> PoolInfo \<Rightarrow> acc \<Rightarrow> acc" where
  "poolAgeAnalysis now pool a =
     (case a of (sc, rs, ws) \<Rightarrow>
        (let ageHours = real_of_int (now - createdAt pool) / (1000 * 60 * 60) in
         if ageHours \<ge> MIN_AGE_HOURS \<and> ageHours \<le> MAX_AGE_HOURS then
           (let (score1, reasons1) =
                  (if ageHours \<le> SWEET_SPOT_AGE_HOURS
                   then (sc + 20, rs @ [AgeSweetSpot ageHours])
                   else (sc + 10, rs @ [AgeWithinRange ageHours]))
            in if ageHours \<le> 12
               then (score1 + 15, reasons1 @ [UltraFreshPool ageHours], ws)
               else (score1, reasons1, ws))
         else if ageHours < MIN_AGE_HOURS
         then (sc, rs, ws @ [PoolTooNew ageHours])
         else (sc, rs, ws @ [PoolTooOld ageHours])))"

definition highIncentiveBonus :: "PoolInfo \<Rightarrow> acc \<Rightarrow> acc" where
  "highIncentiveBonus pool a =
     (case a of (sc, rs, ws) \<Rightarrow>
        if apy pool \<ge> HIGH_INCENTIVE_THRESHOLD
        then (sc + 25, rs @ [UltraHighIncentive (apy pool)], ws)
        else if apy pool \<ge> 100
        then (sc + 15, rs @ [HighIncentive (apy pool)], ws)
        else (sc, rs, ws))"

definition volumeAnalysis :: "PoolInfo \<Rightarrow> acc \<Rightarrow> acc" where
  "volumeAnalysis pool a =
     (case a of (sc, rs, ws) \<Rightarrow>
        if volume24h pool \<ge> HIGH_VOLUME_THRESHOLD
        then (sc + 15, rs @ [HighVolumeActivity], ws)
        else if volume24h pool \<ge> MIN_VOLUME_24H * 2
        then (sc + 10, rs @ [GoodVolumeActivity], ws)
        else (sc, rs, ws))"

definition riskRewardAnalysis :: "PoolInfo \<Rightarrow> acc \<Rightarrow> acc" where
  "riskRewardAnalysis pool a =
     (case a of (sc, rs, ws) \<Rightarrow>
        if tvl pool < 1000 \<and> apy pool > 150
        then (sc + 15, rs @ [EarlyEntryOpportunity], ws)
        else (sc, rs, ws))"

definition sustainabilityCheck :: "PoolInfo \<Rightarrow> acc \<Rightarrow> acc" where
  "sustainabilityCheck pool a =
     (case a of (sc, rs, ws) \<Rightarrow>
        if apy pool < 1000 \<and> volume24h pool > tvl pool * (1 / 10)
        then (sc + 10, rs @ [SustainableIncentive], ws)
        else (sc, rs, ws))"

definition extremeApyWarning :: "PoolInfo \<Rightarrow> acc \<Rightarrow> acc" where
  "extremeApyWarning pool a =
     (case a of (sc, rs, ws) \<Rightarrow>
        if apy pool > 1000
        then (sc, rs, ws @ [VeryHighApy (apy pool)])
        else (sc, rs, ws))"

definition evaluatePoolForEntry_monitor :: "int \<Rightarrow> PoolInfo \<Rightarrow> PoolEvaluation" where
  "evaluatePoolForEntry_monitor now pool =
     (let score0 = 0; reasons0 = []; warnings0 = [] in
      if apy pool \<ge> MIN_APY then
        (let score1 = score0 + 30;
             reasons1 = reasons0 @ [ApyMeetsMinimum (apy pool) MIN_APY] in
         if tvl pool \<ge> MIN_TVL then
           (let score2 = score1 + 20;
                reasons2 = reasons1 @ [TvlMeetsMinimum (tvl pool) MIN_TVL] in
            if volume24h pool \<ge> MIN_VOLUME_24H then
              (let score3 = score2 + 20;
                   reasons3 = reasons2 @ [VolumeMeetsMinimum (volume24h pool) MIN_VOLUME_24H]
               in case extremeApyWarning pool
                         (sustainabilityCheck pool
                           (riskRewardAnalysis pool
                             (volumeAnalysis pool
                               (highIncentiveBonus pool
                                 (poolAgeAnalysis now pool (score3, reasons3, warnings0))))))
                  of (sc, rs, ws) \<Rightarrow>
                    \<lparr> PoolEvaluation.poolId = PoolInfo.poolId pool,
                      PoolEvaluation.score = sc,
                      decision = (if sc \<ge> MIN_SCORE_TO_ENTER then ENTER else SKIP),
                      PoolEvaluation.reasons = rs,
                      PoolEvaluation.warnings = ws, timestamp = now \<rparr>)
            else
              \<lparr> PoolEvaluation.poolId = PoolInfo.poolId pool, PoolEvaluation.score = 0,
                decision = SKIP,
                PoolEvaluation.reasons =
                  [VolumeBelowMinimum (volume24h pool) MIN_VOLUME_24H],
                PoolEvaluation.warnings = warnings0, timestamp = now \<rparr>)
         else
           \<lparr> PoolEvaluation.poolId = PoolInfo.poolId pool, PoolEvaluation.score = 0,
             decision = SKIP,
             PoolEvaluation.reasons = [TvlBelowMinimum (tvl pool) MIN_TVL],
             PoolEvaluation.warnings = warnings0, timestamp = now \<rparr>)
      else
        \<lparr> PoolEvaluation.poolId = PoolInfo.poolId pool, PoolEvaluation.score = 0,
          decision = SKIP,
          PoolEvaluation.reasons = [ApyBelowMinimum (apy pool) MIN_APY],
          PoolEvaluation.warnings = warnings0, timestamp = now \<rparr>)"

section \<open>Exit policy\<close>

datatype urgency = Low | Medium | High

text \<open>One constructor for each reason string of \<open>evaluatePositionForExit\<close>.\<close>

datatype exit_reason =
    StopLossTriggered real
  | TakeProfitTriggered real
  | ApyDroppedBelowThreshold real real
  | MaximumHoldingTimeReached real
  | SignificantApyDecline real
  | LowLiquidityRelativeToPosition
  | MeetsHoldingCriteria

record ExitEvaluation =
  shouldExit :: bool
  reason :: exit_reason
  urgency :: urgency

definition evaluatePositionForExit ::
  "BotConfig \<Rightarrow> int \<Rightarrow> Position \<Rightarrow> PoolInfo \<Rightarrow> ExitEvaluation" where
  "evaluatePositionForExit config now position currentPool =
     (let holdingTimeHours = real_of_int (now - entryTime position) / (1000 * 60 * 60) in
      if pnlPercentage position \<le> stopLossPercentage config then
        \<lparr> shouldExit = True, reason = StopLossTriggered (pnlPercentage position),
          urgency = High \<rparr>
      else if pnlPercentage position \<ge> takeProfitPercentage config then
        \<lparr> shouldExit = True, reason = TakeProfitTriggered (pnlPercentage position),
          urgency = Medium \<rparr>
      else if apy currentPool < exitApyThreshold config then
        \<lparr> shouldExit = True,
          reason = ApyDroppedBelowThreshold (apy currentPool) (exitApyThreshold config),
          urgency = Medium \<rparr>
      else if holdingTimeHours \<ge> maxHoldingTime config then
        \<lparr> shouldExit = True, reason = MaximumHoldingTimeReached holdingTimeHours,
          urgency = Low \<rparr>
      else
        (let apyDecline =
               ((entryApy position - apy currentPool) / entryApy position) * 100 in
         if apyDecline > 50 then
           \<lparr> shouldExit = True, reason = SignificantApyDecline apyDecline,
             urgency = Medium \<rparr>
         else if tvl currentPool < Position.amount position * 10 then
           \<lparr> shouldExit = True, reason = LowLiquidityRelativeToPosition, urgency = High \<rparr>
         else
           \<lparr> shouldExit = False, reason = MeetsHoldingCriteria, urgency = Low \<rparr>))"

section \<open>Portfolio ledger\<close>

text \<open>
  The state of a \<open>PortfolioManager\<close> is its \<open>portfolio\<close> field; \<open>config\<close> never changes
  after construction and is an argument. A method that mutates the portfolio returns the
  new portfolio beside its result; \<open>null\<close> is \<open>None\<close>.
\<close>

definition newPortfolio :: "BotConfig \<Rightarrow> real \<Rightarrow> Portfolio" where
  "newPortfolio config initialCash =
     \<lparr> totalValue = initialCash, totalInvested = 0, totalPnl = 0, totalPnlPercentage = 0,
       activePositions = [], closedPositions = [], availableCash = initialCash,
       Portfolio.maxPositions = BotConfig.maxPositions config \<rparr>"

definition canEnterNewPosition :: "BotConfig \<Rightarrow> Portfolio \<Rightarrow> bool" where
  "canEnterNewPosition config portfolio =
     (real (length (activePositions portfolio)) < BotConfig.maxPositions config \<and>
      availableCash portfolio \<ge> positionSize config \<and>
      totalInvested portfolio < maxTotalInvestment config)"

definition hasPositionInPool :: "Portfolio \<Rightarrow> string \<Rightarrow> bool" where
  "hasPositionInPool portfolio pid =
     list_ex (\<lambda>p. Position.poolId p = pid) (activePositions portfolio)"

definition enterPosition ::
  "BotConfig \<Rightarrow> string \<Rightarrow> int \<Rightarrow> Portfolio \<Rightarrow> PoolInfo \<Rightarrow> Position option \<times> Portfolio" where
  "enterPosition config uuid now portfolio pool =
     (if \<not> canEnterNewPosition config portfolio then (None, portfolio)
      else if hasPositionInPool portfolio (PoolInfo.poolId pool) then (None, portfolio)
      else
        (let size = min (positionSize config) (availableCash portfolio);
             position =
               \<lparr> id = uuid, Position.poolId = PoolInfo.poolId pool, entryTime = now,
                 entryPrice = price pool, entryApy = apy pool, Position.amount = size,
                 currentValue = size, currentApy = apy pool, pnl = 0, pnlPercentage = 0,
                 status = Active, exitTime = None, exitPrice = None, exitReason = None \<rparr>
         in (Some position,
             portfolio\<lparr> activePositions := activePositions portfolio @ [position],
                        availableCash := availableCash portfolio - size,
                        totalInvested := totalInvested portfolio + size \<rparr>)))"

text \<open>\<open>Array.prototype.findIndex\<close>; the source's \<open>-1\<close> is \<open>None\<close>.\<close>

fun findIndex :: "('a \<Rightarrow> bool) \<Rightarrow> 'a list \<Rightarrow> nat option" where
  "findIndex P [] = None"
| "findIndex P (x # xs) = (if P x then Some 0 else map_option Suc (findIndex P xs))"

text \<open>
  \<open>exitPosition\<close> mutates the position object it found, appends it to the closed
  positions and splices it out of the active ones. The two clock reads of the source
  (\<open>Date.now()\<close> for the holding time, \<open>new Date()\<close> for \<open>exitTime\<close>) are one argument.
\<close>

definition exitPosition ::
  "int \<Rightarrow> Portfolio \<Rightarrow> string \<Rightarrow> PoolInfo \<Rightarrow> string \<Rightarrow> bool \<times> Portfolio" where
  "exitPosition now portfolio positionId currentPool why =
     (case findIndex (\<lambda>p. Position.id p = positionId) (activePositions portfolio) of
        None \<Rightarrow> (False, portfolio)
      | Some positionIndex \<Rightarrow>
          (let position = activePositions portfolio ! positionIndex;
               timeHeldHours = real_of_int (now - entryTime position) / (1000 * 60 * 60);
               apyGain = (entryApy position / 100 / 365 / 24) * timeHeldHours
                           * Position.amount position;
               priceChange = ((price currentPool - entryPrice position) / entryPrice position)
                               * Position.amount position;
               value = Position.amount position + apyGain + priceChange;
               profit = value - Position.amount position;
               exited = position
                 \<lparr> currentValue := value, pnl := profit,
                   pnlPercentage := (profit / Position.amount position) * 100,
                   status := Exited, exitTime := Some now,
                   exitPrice := Some (price currentPool), exitReason := Some why \<rparr>
           in (True,
               portfolio
                 \<lparr> availableCash := availableCash portfolio + value,
                   totalInvested := totalInvested portfolio - Position.amount position,
                   closedPositions := closedPositions portfolio @ [exited],
                   activePositions := take positionIndex (activePositions portfolio)
                     @ drop (Suc positionIndex) (activePositions portfolio) \<rparr>)))"

text \<open>
  \<open>updatePosition\<close> mutates the position object it is given. The objects the bot passes
  are the elements of \<open>activePositions\<close> (\<open>getActivePositions\<close> copies the array, not the
  objects), so \<open>updateActivePosition\<close> writes the result back at the object's index.
\<close>

definition updatePosition :: "int \<Rightarrow> Position \<Rightarrow> PoolInfo \<Rightarrow> Position" where
  "updatePosition now position currentPool =
     (let timeHeldHours = real_of_int (now - entryTime position) / (1000 * 60 * 60);
          apyGain = (entryApy position / 100 / 365 / 24) * timeHeldHours
                      * Position.amount position;
          priceChange = ((price currentPool - entryPrice position) / entryPrice position)
                          * Position.amount position * (1 / 2);
          value = Position.amount position + apyGain + priceChange;
          profit = value - Position.amount position
      in position
           \<lparr> currentValue := value, currentApy := apy currentPool, pnl := profit,
             pnlPercentage := (profit / Position.amount position) * 100 \<rparr>)"

definition updateActivePosition :: "int \<Rightarrow> Portfolio \<Rightarrow> nat \<Rightarrow> PoolInfo \<Rightarrow> Portfolio" where
  "updateActivePosition now portfolio i currentPool =
     (if i < length (activePositions portfolio)
      then portfolio\<lparr> activePositions := (activePositions portfolio)
             [i := updatePosition now (activePositions portfolio ! i) currentPool] \<rparr>
      else portfolio)"

text \<open>The operations a client of the ledger can issue, and the states they reach.\<close>

datatype operation =
    Enter string int PoolInfo
  | Exit int string PoolInfo string
  | Update int nat PoolInfo

fun perform :: "BotConfig \<Rightarrow> Portfolio \<Rightarrow> operation \<Rightarrow> Portfolio" where
  "perform config portfolio (Enter uuid now pool) =
     snd (enterPosition config uuid now portfolio pool)"
| "perform config portfolio (Exit now positionId pool why) =
     snd (exitPosition now portfolio positionId pool why)"
| "perform config portfolio (Update now i pool) =
     updateActivePosition now portfolio i pool"

definition run :: "BotConfig \<Rightarrow> real \<Rightarrow> operation list \<Rightarrow> Portfolio" where
  "run config initialCash ops = foldl (perform config) (newPortfolio config initialCash) ops"

section \<open>Deduplication of discovered pools\<close>







section \<open>Example inputs\<close>

text \<open>The first entry of \<open>DEMO_POOLS\<close>, created two hours before \<open>now\<close>.\<close>

definition demo_pool_1 :: "int \<Rightarrow> PoolInfo" where
  "demo_pool_1 now =
     \<lparr> PoolInfo.poolId = ''demo_pool_1_high_apy'',
       baseToken = \<lparr> mint = ''EPjFWdd5AufqSSqeM2qN1xzybapC8G4wEGGkZwyTDt1v'',
                     symbol = ''USDC'', decimals = 6, TokenInfo.amount = 50000 \<rparr>,
       quoteToken = \<lparr> mint = ''So11111111111111111111111111111111111111112'',
                      symbol = ''SOL'', decimals = 9, TokenInfo.amount = 300 \<rparr>,
       tvl = 75000, volume24h = 25000, fees24h = 125 / 2, apy = 37 / 2,
       createdAt = now - 2 * 60 * 60 * 1000, lpTokenSupply = 1000000, price = 335 / 2 \<rparr>"



text \<open>
  The same pool with a yield above and a TVL below the default minimum: it passes the
  first gate of \<open>DEFAULT_BOT_CONFIG\<close> and fails the second.
\<close>

definition low_tvl_pool :: "int \<Rightarrow> PoolInfo" where
  "low_tvl_pool now = (demo_pool_1 now)\<lparr> apy := 30, tvl := 50 \<rparr>"


definition demo_pool_2 :: "int \<Rightarrow> PoolInfo" where
  "demo_pool_2 now = (demo_pool_1 now)\<lparr> PoolInfo.poolId := ''demo_pool_2_medium_apy'' \<rparr>"

text \<open>An active position of 1000 opened at time 0, at yield 20 and price 1.\<close>

definition demo_position :: Position where
  "demo_position =
     \<lparr> id = ''position-1'', Position.poolId = ''demo_pool_1_high_apy'', entryTime = 0,
       entryPrice = 1, entryApy = 20, Position.amount = 1000, currentValue = 1000,
       currentApy = 20, pnl = 0, pnlPercentage = 0, status = Active, exitTime = None,
       exitPrice = None, exitReason = None \<rparr>"

definition demo_portfolio :: Portfolio where
  "demo_portfolio =
     (newPortfolio DEFAULT_BOT_CONFIG 10000)
       \<lparr> activePositions := [demo_position], availableCash := 9000, totalInvested := 1000 \<rparr>"

text \<open>A configuration whose stop-loss and take-profit thresholds coincide.\<close>

definition crossed_config :: BotConfig where
  "crossed_config =
     DEFAULT_BOT_CONFIG\<lparr> stopLossPercentage := 5, takeProfitPercentage := 5 \<rparr>"

text \<open>A configuration whose investment cap is not a multiple of the position size.\<close>

definition capped_config :: BotConfig where
  "capped_config = DEFAULT_BOT_CONFIG\<lparr> maxTotalInvestment := 1500 \<rparr>"

section \<open>Properties of the liquidity ratio\<close>







section \<open>Properties of the scoring engine\<close>

text \<open>
  C1, as stated, fails on the bot's evaluator: a pool that passes the yield gate and
  fails the TVL gate is skipped with the 25 points of the yield gate and two reasons,
  the passed gate's and the failed gate's.
\<close>

theorem evaluatePoolForEntry_low_tvl_counterexample:
  "minApy DEFAULT_BOT_CONFIG \<le> apy (low_tvl_pool 0) \<and>
   tvl (low_tvl_pool 0) < minTvl DEFAULT_BOT_CONFIG \<and>
   \<not> shouldEnter (evaluatePoolForEntry DEFAULT_BOT_CONFIG 0 (low_tvl_pool 0)) \<and>
   EntryEvaluation.score (evaluatePoolForEntry DEFAULT_BOT_CONFIG 0 (low_tvl_pool 0)) = 25 \<and>
   EntryEvaluation.reasons (evaluatePoolForEntry DEFAULT_BOT_CONFIG 0 (low_tvl_pool 0))
     = [ApyMeetsMinimum 30 20, TvlBelowMinimum 50 100]"
  by (simp add: evaluatePoolForEntry_def DEFAULT_BOT_CONFIG_def low_tvl_pool_def demo_pool_1_def)

text \<open>
  C1, amended. For every pool record that fails one of the three hard gates (yield, TVL,
  24h volume, checked in that order), the pool monitor's \<open>evaluatePoolForEntry\<close> returns
  SKIP with score \<open>0\<close> and exactly one reason, the failed gate's. The bot's
  \<open>evaluatePoolForEntry\<close> returns \<open>shouldEnter = false\<close> with the points of the gates
  passed before the failing one (\<open>0\<close>, \<open>25\<close> or \<open>45\<close>) and their reasons followed by
  the failed gate's. In both, the result is fixed by the gates up to the failing one:
  no later gate and no later block contributes.
\<close>

theorem evaluatePoolForEntry_gate_failure:
  "(apy pool < MIN_APY \<longrightarrow>
      evaluatePoolForEntry_monitor now pool =
        \<lparr> PoolEvaluation.poolId = PoolInfo.poolId pool, PoolEvaluation.score = 0,
          decision = SKIP, PoolEvaluation.reasons = [ApyBelowMinimum (apy pool) MIN_APY],
          PoolEvaluation.warnings = [], timestamp = now \<rparr>) \<and>
   (MIN_APY \<le> apy pool \<and> tvl pool < MIN_TVL \<longrightarrow>
      evaluatePoolForEntry_monitor now pool =
        \<lparr> PoolEvaluation.poolId = PoolInfo.poolId pool, PoolEvaluation.score = 0,
          decision = SKIP, PoolEvaluation.reasons = [TvlBelowMinimum (tvl pool) MIN_TVL],
          PoolEvaluation.warnings = [], timestamp = now \<rparr>) \<and>
   (MIN_APY \<le> apy pool \<and> MIN_TVL \<le> tvl pool \<and> volume24h pool < MIN_VOLUME_24H \<longrightarrow>
      evaluatePoolForEntry_monitor now pool =
        \<lparr> PoolEvaluation.poolId = PoolInfo.poolId pool, PoolEvaluation.score = 0,
          decision = SKIP,
          PoolEvaluation.reasons = [VolumeBelowMinimum (volume24h pool) MIN_VOLUME_24H],
          PoolEvaluation.warnings = [], timestamp = now \<rparr>) \<and>
   (apy pool < minApy config \<longrightarrow>
      evaluatePoolForEntry config now pool =
        \<lparr> shouldEnter = False, EntryEvaluation.score = 0,
          EntryEvaluation.reasons = [ApyBelowMinimum (apy pool) (minApy config)],
          EntryEvaluation.warnings = [] \<rparr>) \<and>
   (minApy config \<le> apy pool \<and> tvl pool < minTvl config \<longrightarrow>
      evaluatePoolForEntry config now pool =
        \<lparr> shouldEnter = False, EntryEvaluation.score = 25,
          EntryEvaluation.reasons =
            [ApyMeetsMinimum (apy pool) (minApy config),
             TvlBelowMinimum (tvl pool) (minTvl config)],
          EntryEvaluation.warnings = [] \<rparr>) \<and>
   (minApy config \<le> apy pool \<and> minTvl config \<le> tvl pool
      \<and> volume24h pool < minVolume24h config \<longrightarrow>
      evaluatePoolForEntry config now pool =
        \<lparr> shouldEnter = False, EntryEvaluation.score = 45,
          EntryEvaluation.reasons =
            [ApyMeetsMinimum (apy pool) (minApy config),
             TvlMeetsMinimum (tvl pool) (minTvl config),
             VolumeBelowMinimum (volume24h pool) (minVolume24h config)],
          EntryEvaluation.warnings = [] \<rparr>)"
  by (simp add: evaluatePoolForEntry_def evaluatePoolForEntry_monitor_def)

theorem evaluatePoolForEntry_gate_failure_witness:
  "evaluatePoolForEntry_monitor 7 (demo_pool_1 7) =
     \<lparr> PoolEvaluation.poolId = ''demo_pool_1_high_apy'', PoolEvaluation.score = 0,
       decision = SKIP, PoolEvaluation.reasons = [ApyBelowMinimum (37 / 2) 100],
       PoolEvaluation.warnings = [], timestamp = 7 \<rparr> \<and>
   evaluatePoolForEntry_monitor 7 ((demo_pool_1 7)\<lparr> apy := 150, tvl := 40 \<rparr>) =
     \<lparr> PoolEvaluation.poolId = ''demo_pool_1_high_apy'', PoolEvaluation.score = 0,
       decision = SKIP, PoolEvaluation.reasons = [TvlBelowMinimum 40 50],
       PoolEvaluation.warnings = [], timestamp = 7 \<rparr> \<and>
   evaluatePoolForEntry_monitor 7 ((demo_pool_1 7)\<lparr> apy := 150, volume24h := 400 \<rparr>) =
     \<lparr> PoolEvaluation.poolId = ''demo_pool_1_high_apy'', PoolEvaluation.score = 0,
       decision = SKIP, PoolEvaluation.reasons = [VolumeBelowMinimum 400 500],
       PoolEvaluation.warnings = [], timestamp = 7 \<rparr> \<and>
   evaluatePoolForEntry DEFAULT_BOT_CONFIG 7 (demo_pool_1 7) =
     \<lparr> shouldEnter = False, EntryEvaluation.score = 0,
       EntryEvaluation.reasons = [ApyBelowMinimum (37 / 2) 20],
       EntryEvaluation.warnings = [] \<rparr> \<and>
   evaluatePoolForEntry DEFAULT_BOT_CONFIG 7 (low_tvl_pool 7) =
     \<lparr> shouldEnter = False, EntryEvaluation.score = 25,
       EntryEvaluation.reasons = [ApyMeetsMinimum 30 20, TvlBelowMinimum 50 100],
       EntryEvaluation.warnings = [] \<rparr> \<and>
   evaluatePoolForEntry DEFAULT_BOT_CONFIG 7 ((demo_pool_1 7)\<lparr> apy := 30, volume24h := 400 \<rparr>) =
     \<lparr> shouldEnter = False, EntryEvaluation.score = 45,
       EntryEvaluation.reasons =
         [ApyMeetsMinimum 30 20, TvlMeetsMinimum 75000 100, VolumeBelowMinimum 400 1000],
       EntryEvaluation.warnings = [] \<rparr>"
  using evaluatePoolForEntry_gate_failure [of "demo_pool_1 7" 7 DEFAULT_BOT_CONFIG]
    evaluatePoolForEntry_gate_failure [of "(demo_pool_1 7)\<lparr> apy := 150, tvl := 40 \<rparr>" 7 DEFAULT_BOT_CONFIG]
    evaluatePoolForEntry_gate_failure [of "(demo_pool_1 7)\<lparr> apy := 150, volume24h := 400 \<rparr>" 7 DEFAULT_BOT_CONFIG]
    evaluatePoolForEntry_gate_failure [of "low_tvl_pool 7" 7 DEFAULT_BOT_CONFIG]
    evaluatePoolForEntry_gate_failure [of "(demo_pool_1 7)\<lparr> apy := 30, volume24h := 400 \<rparr>" 7 DEFAULT_BOT_CONFIG]
  by (simp add: DEFAULT_BOT_CONFIG_def low_tvl_pool_def demo_pool_1_def MIN_APY_def MIN_TVL_def MIN_VOLUME_24H_def)











section \<open>Properties of the exit policy\<close>

text \<open>
  C5. For every position and pool snapshot that satisfy both the stop-loss condition
  (P&L percentage at most the stop-loss threshold) and the take-profit condition (P&L
  percentage at least the take-profit threshold), \<open>evaluatePositionForExit\<close> returns
  \<open>shouldExit = true\<close> with the stop-loss reason and urgency high: stop-loss is checked
  first.
\<close>

theorem stop_loss_precedence:
  assumes "pnlPercentage position \<le> stopLossPercentage config"
    and "takeProfitPercentage config \<le> pnlPercentage position"
  shows "evaluatePositionForExit config now position currentPool =
           \<lparr> shouldExit = True, reason = StopLossTriggered (pnlPercentage position),
             urgency = High \<rparr>"
  using assms by (simp add: evaluatePositionForExit_def)

theorem stop_loss_precedence_witness:
  "pnlPercentage (demo_position\<lparr> pnlPercentage := 5 \<rparr>) \<le> stopLossPercentage crossed_config \<and>
   takeProfitPercentage crossed_config \<le> pnlPercentage (demo_position\<lparr> pnlPercentage := 5 \<rparr>) \<and>
   evaluatePositionForExit crossed_config 0 (demo_position\<lparr> pnlPercentage := 5 \<rparr>)
       (demo_pool_1 0) =
     \<lparr> shouldExit = True, reason = StopLossTriggered 5, urgency = High \<rparr>"
proof -
  have h: "pnlPercentage (demo_position\<lparr> pnlPercentage := 5 \<rparr>)
             \<le> stopLossPercentage crossed_config"
    "takeProfitPercentage crossed_config
       \<le> pnlPercentage (demo_position\<lparr> pnlPercentage := 5 \<rparr>)"
    by (simp_all add: crossed_config_def DEFAULT_BOT_CONFIG_def)
  show ?thesis
    using stop_loss_precedence [OF h, of 0 "demo_pool_1 0"] h by simp
qed

section \<open>Properties of the portfolio ledger\<close>




lemma hasPositionInPool_iff:
  "hasPositionInPool portfolio pid \<longleftrightarrow>
     (\<exists>p\<in>set (activePositions portfolio). Position.poolId p = pid)"
  by (simp add: hasPositionInPool_def list_ex_iff)

text \<open>
  C7. Whenever a precondition of \<open>enterPosition\<close> is violated (active position count at
  the configured maximum, cash below the position size, total invested at or above the
  maximum investment, or an active position with the same pool id), \<open>enterPosition\<close>
  returns \<open>null\<close> and the portfolio is unchanged. When a call for a pool returns a
  position, the next call for the same pool is rejected and leaves exactly that one
  active position for the pool.
\<close>

theorem enterPosition_rejected:
  "(BotConfig.maxPositions config \<le> real (length (activePositions portfolio)) \<or>
    availableCash portfolio < positionSize config \<or>
    maxTotalInvestment config \<le> totalInvested portfolio \<or>
    (\<exists>p\<in>set (activePositions portfolio). Position.poolId p = PoolInfo.poolId pool) \<longrightarrow>
      enterPosition config uuid now portfolio pool = (None, portfolio)) \<and>
   (enterPosition config uuid now portfolio pool = (Some position, portfolio') \<longrightarrow>
      enterPosition config uuid' now' portfolio' pool = (None, portfolio') \<and>
      filter (\<lambda>p. Position.poolId p = PoolInfo.poolId pool) (activePositions portfolio')
        = [position])"
proof (intro conjI impI)
  assume "BotConfig.maxPositions config \<le> real (length (activePositions portfolio)) \<or>
    availableCash portfolio < positionSize config \<or>
    maxTotalInvestment config \<le> totalInvested portfolio \<or>
    (\<exists>p\<in>set (activePositions portfolio). Position.poolId p = PoolInfo.poolId pool)"
  then have "\<not> canEnterNewPosition config portfolio
              \<or> hasPositionInPool portfolio (PoolInfo.poolId pool)"
    by (auto simp: canEnterNewPosition_def hasPositionInPool_iff)
  then show "enterPosition config uuid now portfolio pool = (None, portfolio)"
    by (auto simp: enterPosition_def)
next
  assume ok: "enterPosition config uuid now portfolio pool = (Some position, portfolio')"
  then have can: "canEnterNewPosition config portfolio"
    and fresh: "\<not> hasPositionInPool portfolio (PoolInfo.poolId pool)"
    by (auto simp: enterPosition_def split: if_splits)
  from ok can fresh have act: "activePositions portfolio' = activePositions portfolio @ [position]"
    and pid: "Position.poolId position = PoolInfo.poolId pool"
    by (auto simp: enterPosition_def Let_def)
  have "hasPositionInPool portfolio' (PoolInfo.poolId pool)"
    by (simp add: hasPositionInPool_iff act pid)
  then show "enterPosition config uuid' now' portfolio' pool = (None, portfolio')"
    by (simp add: enterPosition_def)
  have "filter (\<lambda>p. Position.poolId p = PoolInfo.poolId pool) (activePositions portfolio) = []"
    using fresh by (auto simp: hasPositionInPool_iff filter_empty_conv)
  then show "filter (\<lambda>p. Position.poolId p = PoolInfo.poolId pool) (activePositions portfolio')
        = [position]"
    by (simp add: act pid)
qed

theorem enterPosition_rejected_witness:
  "enterPosition DEFAULT_BOT_CONFIG ''position-2'' 5 demo_portfolio (demo_pool_1 5)
     = (None, demo_portfolio) \<and>
   enterPosition DEFAULT_BOT_CONFIG ''position-2'' 5
       (demo_portfolio\<lparr> availableCash := 999 \<rparr>) (demo_pool_2 5)
     = (None, demo_portfolio\<lparr> availableCash := 999 \<rparr>) \<and>
   enterPosition DEFAULT_BOT_CONFIG ''position-2'' 6
       (snd (enterPosition DEFAULT_BOT_CONFIG ''position-1'' 5
               (newPortfolio DEFAULT_BOT_CONFIG 10000) (demo_pool_1 5))) (demo_pool_1 5)
     = (None, snd (enterPosition DEFAULT_BOT_CONFIG ''position-1'' 5
                     (newPortfolio DEFAULT_BOT_CONFIG 10000) (demo_pool_1 5))) \<and>
   length (filter (\<lambda>p. Position.poolId p = PoolInfo.poolId (demo_pool_1 5))
       (activePositions (snd (enterPosition DEFAULT_BOT_CONFIG ''position-1'' 5
               (newPortfolio DEFAULT_BOT_CONFIG 10000) (demo_pool_1 5))))) = 1"
proof -
  have dup: "\<exists>p\<in>set (activePositions demo_portfolio).
               Position.poolId p = PoolInfo.poolId (demo_pool_1 5)"
    by (simp add: demo_portfolio_def demo_position_def demo_pool_1_def)
  have poor: "availableCash (demo_portfolio\<lparr> availableCash := 999 \<rparr>)
                < positionSize DEFAULT_BOT_CONFIG"
    by (simp add: DEFAULT_BOT_CONFIG_def)
  obtain position portfolio' where first:
    "enterPosition DEFAULT_BOT_CONFIG ''position-1'' 5
       (newPortfolio DEFAULT_BOT_CONFIG 10000) (demo_pool_1 5) = (Some position, portfolio')"
    by (simp add: enterPosition_def canEnterNewPosition_def hasPositionInPool_def
        newPortfolio_def DEFAULT_BOT_CONFIG_def Let_def)
  show ?thesis
    using enterPosition_rejected [of DEFAULT_BOT_CONFIG demo_portfolio "demo_pool_1 5"
        "''position-2''" 5]
      enterPosition_rejected [of DEFAULT_BOT_CONFIG "demo_portfolio\<lparr> availableCash := 999 \<rparr>"
        "demo_pool_2 5" "''position-2''" 5]
      enterPosition_rejected [of DEFAULT_BOT_CONFIG "newPortfolio DEFAULT_BOT_CONFIG 10000"
        "demo_pool_1 5" "''position-1''" 5 position portfolio' "''position-2''" 6]
      dup poor first
    by simp
qed

text \<open>
  C10. Whenever \<open>enterPosition\<close> returns a position, its amount is the configured
  position size: the minimum of position size and available cash is the position size,
  because the cash precondition holds on that path.
\<close>

theorem enterPosition_amount:
  assumes "enterPosition config uuid now portfolio pool = (Some position, portfolio')"
  shows "Position.amount position = positionSize config \<and>
         min (positionSize config) (availableCash portfolio) = positionSize config \<and>
         positionSize config \<le> availableCash portfolio"
proof -
  from assms have can: "canEnterNewPosition config portfolio"
    and fresh: "\<not> hasPositionInPool portfolio (PoolInfo.poolId pool)"
    by (auto simp: enterPosition_def split: if_splits)
  from can have cash: "positionSize config \<le> availableCash portfolio"
    by (simp add: canEnterNewPosition_def)
  from assms can fresh
  have "Position.amount position = min (positionSize config) (availableCash portfolio)"
    by (auto simp: enterPosition_def Let_def)
  with cash show ?thesis by simp
qed

theorem enterPosition_amount_witness:
  "enterPosition DEFAULT_BOT_CONFIG ''position-1'' 5 (newPortfolio DEFAULT_BOT_CONFIG 1200)
       (demo_pool_1 5)
     = (Some (demo_position\<lparr> entryTime := 5, entryPrice := 335 / 2, entryApy := 37 / 2,
                currentApy := 37 / 2 \<rparr>),
        (newPortfolio DEFAULT_BOT_CONFIG 1200)
          \<lparr> activePositions := [demo_position\<lparr> entryTime := 5, entryPrice := 335 / 2,
                                   entryApy := 37 / 2, currentApy := 37 / 2 \<rparr>],
            availableCash := 200, totalInvested := 1000 \<rparr>) \<and>
   Position.amount (demo_position\<lparr> entryTime := 5, entryPrice := 335 / 2,
       entryApy := 37 / 2, currentApy := 37 / 2 \<rparr>) = positionSize DEFAULT_BOT_CONFIG \<and>
   min (positionSize DEFAULT_BOT_CONFIG) (availableCash (newPortfolio DEFAULT_BOT_CONFIG 1200))
     = positionSize DEFAULT_BOT_CONFIG"
proof -
  have ok: "enterPosition DEFAULT_BOT_CONFIG ''position-1'' 5
       (newPortfolio DEFAULT_BOT_CONFIG 1200) (demo_pool_1 5)
     = (Some (demo_position\<lparr> entryTime := 5, entryPrice := 335 / 2, entryApy := 37 / 2,
                currentApy := 37 / 2 \<rparr>),
        (newPortfolio DEFAULT_BOT_CONFIG 1200)
          \<lparr> activePositions := [demo_position\<lparr> entryTime := 5, entryPrice := 335 / 2,
                                   entryApy := 37 / 2, currentApy := 37 / 2 \<rparr>],
            availableCash := 200, totalInvested := 1000 \<rparr>)"
    by (simp add: enterPosition_def canEnterNewPosition_def hasPositionInPool_def
        newPortfolio_def DEFAULT_BOT_CONFIG_def demo_position_def demo_pool_1_def Let_def)
  show ?thesis
    using enterPosition_amount [OF ok] ok by simp
qed

text \<open>
  C4. The claim that the total invested never exceeds the configured maximum fails on
  the code. \<open>canEnterNewPosition\<close> compares the total invested before the new position
  with the maximum, and \<open>enterPosition\<close> then adds the position size. With a position
  size of 1000 and a maximum of 1500, two entries from the constructor's default cash of
  10000 leave 2000 invested. With the initial cash equal to the maximum, as the bot
  constructs its ledger, the same state is reached after one profitable exit has
  refilled the cash.
\<close>

theorem total_invested_exceeds_maximum:
  "maxTotalInvestment capped_config = 1500 \<and>
   totalInvested
     (run capped_config 10000
        [Enter ''position-1'' 0 (demo_pool_1 0), Enter ''position-2'' 0 (demo_pool_2 0)])
     = 2000 \<and>
   totalInvested
     (run capped_config 1500
        [Enter ''position-1'' 0 (demo_pool_1 0),
         Exit 0 ''position-1'' ((demo_pool_1 0)\<lparr> price := 335 \<rparr>) ''Take profit triggered'',
         Enter ''position-2'' 0 (demo_pool_1 0),
         Enter ''position-3'' 0 (demo_pool_2 0)])
     = 2000"
  by (simp add: run_def enterPosition_def exitPosition_def canEnterNewPosition_def
      hasPositionInPool_def newPortfolio_def capped_config_def DEFAULT_BOT_CONFIG_def
      demo_pool_1_def demo_pool_2_def Let_def)

text \<open>
  The other half of the invariant holds: for a whole number of maximum positions, no
  sequence of operations makes the active positions outnumber it.
\<close>

lemma perform_count:
  assumes "BotConfig.maxPositions config = real n"
    and "length (activePositions portfolio) \<le> n"
  shows "length (activePositions (perform config portfolio op)) \<le> n"
proof (cases op)
  case (Enter uuid now pool)
  then show ?thesis using assms
    by (auto simp: enterPosition_def canEnterNewPosition_def Let_def)
next
  case (Exit now positionId pool why)
  then show ?thesis using assms
    by (auto simp: exitPosition_def Let_def split: option.splits)
next
  case (Update now i pool)
  then show ?thesis using assms
    by (auto simp: updateActivePosition_def)
qed

lemma foldl_perform_count:
  assumes "BotConfig.maxPositions config = real n"
  shows "length (activePositions portfolio) \<le> n \<Longrightarrow>
         length (activePositions (foldl (perform config) portfolio ops)) \<le> n"
  by (induction ops arbitrary: portfolio) (simp_all add: perform_count[OF assms])

lemma active_count_bounded:
  assumes "BotConfig.maxPositions config = real n"
  shows "real (length (activePositions (run config initialCash ops)))
           \<le> BotConfig.maxPositions config"
  using foldl_perform_count[OF assms, of "newPortfolio config initialCash" ops]
  by (simp add: run_def assms newPortfolio_def)

section \<open>Properties of the deduplication\<close>












end
